theory Spec2Isabelle
  imports Complex_Main
begin

section \<open>JavaScript values, as far as the Matcher of \<open>src/core/expect.ts\<close> inspects them\<close>

text \<open>
  The Matcher is written against values of type \<open>any\<close>. The embedding keeps the
  distinctions the code observes: the primitive types, object references (identity matters
  for \<open>===\<close>), and a heap that gives every reference its object. A number is a double:
  \<open>NaN\<close>, the two infinities, or a finite value. The code only compares numbers, it never
  computes with them, and comparison of finite doubles is comparison of the rationals they
  denote (\<open>+0\<close> and \<open>-0\<close> are both \<open>Fin 0\<close>, as \<open>===\<close> and \<open><\<close> see them).
\<close>

type_synonym addr = nat

datatype number = NaN | NegInf | Fin rat | PosInf

datatype val =
    VUndefined
  | VNull
  | VBool bool
  | VNum number
  | VStr string
  | VRef addr

text \<open>
  A property key is a string; a canonical array index is kept apart as \<open>Idx\<close> so that
  the keys of arrays and strings need no decimal printing.
\<close>

datatype key = Idx nat | Name string

text \<open>What calling a function value with no arguments does: return, or throw a value.\<close>

datatype call_outcome = Returns | Throws val

datatype kind =
    PlainObject
  | ArrayObject "val list"
  | FunctionObject call_outcome
  | RegExpObject "string \<Rightarrow> bool"

text \<open>
  An object: its kind, its own properties in enumeration order (key, value, enumerable),
  the properties it finds on its prototype chain (nearest prototype first), and the
  constructors on whose prototype chain it lies (what \<open>instanceof\<close> observes). A
  property is a value: accessors are not part of the model.
\<close>

record obj =
  kind :: kind
  props :: "(key \<times> val \<times> bool) list"
  inherited :: "(key \<times> val) list"
  instances :: "addr list"

type_synonym heap = "addr \<Rightarrow> obj"

text \<open>
  What the engine does where the operands need a conversion is not code of this repository
  and is taken as a parameter: the result of \<open>==\<close> on two non-nullish values of different
  types, the result of \<open><\<close> when the operands are not both numbers, the string an
  \<open>indexOf\<close> argument converts to, and the \<open>TypeError\<close> object thrown by calling a value
  that is not callable. The engine also owns the prototypes of the primitive values: the
  properties a string, a number and a boolean find on \<open>String.prototype\<close>,
  \<open>Number.prototype\<close> and \<open>Boolean.prototype\<close> and on \<open>Object.prototype\<close> behind them.
\<close>

record engine =
  LooseEqMixed :: "val \<Rightarrow> val \<Rightarrow> bool"
  LessMixed :: "val \<Rightarrow> val \<Rightarrow> bool"
  ToStringOf :: "val \<Rightarrow> string"
  NotCallableError :: val
  StringPrototype :: "(key \<times> val) list"
  NumberPrototype :: "(key \<times> val) list"
  BooleanPrototype :: "(key \<times> val) list"

subsection \<open>Errors\<close>

text \<open>
  The error classes of \<open>./_errors\<close> are imported by the source but not defined in it; each
  is a constructor holding the arguments the Matcher passes. \<open>TypeError\<close> is the one the
  Matcher constructs itself, \<open>EngineTypeError\<close> the one the engine throws.
\<close>

datatype engine_fault =
    NotAFunction
  | PropertyOfNullish
  | KeysOfNullish
  | InstanceofNotCallable

datatype error =
    ExactMatchError val val bool
  | EqualMatchError val val bool
  | RegexMatchError val val bool
  | TruthyMatchError val bool
  | ContentsMatchError val val bool
  | LessThanMatchError val val bool
  | GreaterThanMatchError val val bool
  | ErrorMatchError val bool "(val \<times> val) option"
  | FunctionCallMatchError val bool "val list option"
  | PropertySetMatchError val bool "val option"
  | TypeError string
  | EngineTypeError engine_fault

fun isMatchError :: "error \<Rightarrow> bool" where
  "isMatchError (TypeError _) = False"
| "isMatchError (EngineTypeError _) = False"
| "isMatchError _ = True"

fun isTypeError :: "error \<Rightarrow> bool" where
  "isTypeError (TypeError _) = True"
| "isTypeError (EngineTypeError _) = True"
| "isTypeError _ = False"

definition bindE :: "error + 'a \<Rightarrow> ('a \<Rightarrow> error + 'b) \<Rightarrow> error + 'b" where
  "bindE r f = (case r of Inl e \<Rightarrow> Inl e | Inr v \<Rightarrow> f v)"

subsection \<open>The operators and built-ins the Matcher uses\<close>

datatype jstype = TUndefined | TObject | TBoolean | TNumber | TString | TFunction

definition typeof :: "heap \<Rightarrow> val \<Rightarrow> jstype" where
  "typeof h v =
     (case v of
        VUndefined \<Rightarrow> TUndefined
      | VNull \<Rightarrow> TObject
      | VBool _ \<Rightarrow> TBoolean
      | VNum _ \<Rightarrow> TNumber
      | VStr _ \<Rightarrow> TString
      | VRef a \<Rightarrow> (case kind (h a) of FunctionObject _ \<Rightarrow> TFunction | _ \<Rightarrow> TObject))"

text \<open>\<open>===\<close>: same type and same value; \<open>NaN\<close> equals nothing; objects by reference.\<close>

definition strictEq :: "val \<Rightarrow> val \<Rightarrow> bool" where
  "strictEq x y = (x = y \<and> x \<noteq> VNum NaN)"

definition nullish :: "val \<Rightarrow> bool" where
  "nullish v = (v = VUndefined \<or> v = VNull)"

fun sameType :: "val \<Rightarrow> val \<Rightarrow> bool" where
  "sameType VUndefined VUndefined = True"
| "sameType VNull VNull = True"
| "sameType (VBool _) (VBool _) = True"
| "sameType (VNum _) (VNum _) = True"
| "sameType (VStr _) (VStr _) = True"
| "sameType (VRef _) (VRef _) = True"
| "sameType _ _ = False"

text \<open>
  \<open>==\<close>: operands of the same type compare as \<open>===\<close>; \<open>null\<close> and \<open>undefined\<close> equal
  each other and nothing else; any other mix is decided by the engine's conversions.
\<close>

definition looseEq :: "engine \<Rightarrow> val \<Rightarrow> val \<Rightarrow> bool" where
  "looseEq rt x y =
     (if sameType x y then strictEq x y
      else if nullish x \<and> nullish y then True
      else if nullish x \<or> nullish y then False
      else LooseEqMixed rt x y)"

fun numLess :: "number \<Rightarrow> number \<Rightarrow> bool" where
  "numLess NaN _ = False"
| "numLess _ NaN = False"
| "numLess (Fin a) (Fin b) = (a < b)"
| "numLess NegInf NegInf = False"
| "numLess NegInf _ = True"
| "numLess _ NegInf = False"
| "numLess PosInf _ = False"
| "numLess _ PosInf = True"

definition jsLess :: "engine \<Rightarrow> val \<Rightarrow> val \<Rightarrow> bool" where
  "jsLess rt x y =
     (case (x, y) of
        (VNum a, VNum b) \<Rightarrow> numLess a b
      | _ \<Rightarrow> LessMixed rt x y)"

text \<open>\<open>x > y\<close> is \<open>y < x\<close>.\<close>

definition jsGreater :: "engine \<Rightarrow> val \<Rightarrow> val \<Rightarrow> bool" where
  "jsGreater rt x y = jsLess rt y x"

definition truthy :: "val \<Rightarrow> bool" where
  "truthy v =
     (case v of
        VUndefined \<Rightarrow> False
      | VNull \<Rightarrow> False
      | VBool b \<Rightarrow> b
      | VNum n \<Rightarrow> n \<noteq> NaN \<and> n \<noteq> Fin 0
      | VStr s \<Rightarrow> s \<noteq> []
      | VRef _ \<Rightarrow> True)"

definition isArray :: "heap \<Rightarrow> val \<Rightarrow> bool" where
  "isArray h v =
     (case v of
        VRef a \<Rightarrow> (case kind (h a) of ArrayObject _ \<Rightarrow> True | _ \<Rightarrow> False)
      | _ \<Rightarrow> False)"

definition enumerableKeys :: "(key \<times> val \<times> bool) list \<Rightarrow> key list" where
  "enumerableKeys ps = map fst (filter (\<lambda>p. snd (snd p)) ps)"

text \<open>
  \<open>Object.keys\<close>: a \<open>TypeError\<close> on \<open>null\<close> and \<open>undefined\<close>; no keys for a boolean or a
  number; the indices of a string; for an object its own enumerable keys, the indices of
  an array first.
\<close>

definition objectKeys :: "heap \<Rightarrow> val \<Rightarrow> error + key list" where
  "objectKeys h v =
     (case v of
        VUndefined \<Rightarrow> Inl (EngineTypeError KeysOfNullish)
      | VNull \<Rightarrow> Inl (EngineTypeError KeysOfNullish)
      | VBool _ \<Rightarrow> Inr []
      | VNum _ \<Rightarrow> Inr []
      | VStr s \<Rightarrow> Inr (map Idx [0..<length s])
      | VRef a \<Rightarrow>
          Inr ((case kind (h a) of ArrayObject xs \<Rightarrow> map Idx [0..<length xs] | _ \<Rightarrow> [])
               @ enumerableKeys (props (h a))))"

fun ownProp :: "(key \<times> val \<times> bool) list \<Rightarrow> key \<Rightarrow> val option" where
  "ownProp [] k = None"
| "ownProp ((k', v, e) # ps) k = (if k' = k then Some v else ownProp ps k)"

text \<open>
  The prototype chain, asked after the own properties had no answer: the value of the
  nearest prototype that has the key, \<open>undefined\<close> when none has it.
\<close>

fun inheritedProp :: "(key \<times> val) list \<Rightarrow> key \<Rightarrow> val" where
  "inheritedProp [] k = VUndefined"
| "inheritedProp ((k', v) # ps) k = (if k' = k then v else inheritedProp ps k)"

definition lookupProp :: "obj \<Rightarrow> key \<Rightarrow> val" where
  "lookupProp ob k =
     (case ownProp (props ob) k of
        Some v \<Rightarrow> v
      | None \<Rightarrow> inheritedProp (inherited ob) k)"

text \<open>
  A property read \<open>v[k]\<close>: a \<open>TypeError\<close> on \<open>null\<close> and \<open>undefined\<close>; the own property
  when there is one (for a string its characters and \<open>length\<close>, for an array its elements
  and \<open>length\<close>); otherwise what the prototype chain has, \<open>undefined\<close> when it has
  nothing.
\<close>

definition getProp :: "engine \<Rightarrow> heap \<Rightarrow> val \<Rightarrow> key \<Rightarrow> error + val" where
  "getProp rt h v k =
     (case v of
        VUndefined \<Rightarrow> Inl (EngineTypeError PropertyOfNullish)
      | VNull \<Rightarrow> Inl (EngineTypeError PropertyOfNullish)
      | VBool _ \<Rightarrow> Inr (inheritedProp (BooleanPrototype rt) k)
      | VNum _ \<Rightarrow> Inr (inheritedProp (NumberPrototype rt) k)
      | VStr s \<Rightarrow>
          (case k of
             Idx i \<Rightarrow>
               Inr (if i < length s then VStr [s ! i]
                    else inheritedProp (StringPrototype rt) k)
           | Name n \<Rightarrow>
               Inr (if n = ''length'' then VNum (Fin (of_nat (length s)))
                    else inheritedProp (StringPrototype rt) k))
      | VRef a \<Rightarrow>
          (case kind (h a) of
             ArrayObject xs \<Rightarrow>
               (case k of
                  Idx i \<Rightarrow> Inr (if i < length xs then xs ! i else lookupProp (h a) k)
                | Name n \<Rightarrow>
                    Inr (if n = ''length'' then VNum (Fin (of_nat (length xs)))
                         else lookupProp (h a) k))
           | _ \<Rightarrow> Inr (lookupProp (h a) k)))"

text \<open>\<open>String.prototype.indexOf\<close>: the first position where the needle starts, or \<open>-1\<close>.\<close>

fun stringIndexOfFrom :: "string \<Rightarrow> string \<Rightarrow> nat \<Rightarrow> int" where
  "stringIndexOfFrom needle [] i = (if needle = [] then int i else - 1)"
| "stringIndexOfFrom needle (c # cs) i =
     (if take (length needle) (c # cs) = needle then int i
      else stringIndexOfFrom needle cs (Suc i))"

text \<open>\<open>Array.prototype.indexOf\<close>: the first position holding a \<open>===\<close> element, or \<open>-1\<close>.\<close>

fun arrayIndexOfFrom :: "val \<Rightarrow> val list \<Rightarrow> nat \<Rightarrow> int" where
  "arrayIndexOfFrom x [] i = - 1"
| "arrayIndexOfFrom x (y # ys) i =
     (if strictEq y x then int i else arrayIndexOfFrom x ys (Suc i))"

text \<open>
  \<open>v.indexOf(x)\<close>: strings and arrays have the method; reading it from \<open>null\<close> or
  \<open>undefined\<close> and calling it on a value without it are \<open>TypeError\<close>s of the engine.
  Of the built-in prototypes only those of strings and arrays have an \<open>indexOf\<close>; an
  object that brings a method \<open>indexOf\<close>, \<open>filter\<close> or \<open>test\<close> of its own is not part
  of the model.
\<close>

definition indexOf :: "engine \<Rightarrow> heap \<Rightarrow> val \<Rightarrow> val \<Rightarrow> error + int" where
  "indexOf rt h v x =
     (case v of
        VUndefined \<Rightarrow> Inl (EngineTypeError PropertyOfNullish)
      | VNull \<Rightarrow> Inl (EngineTypeError PropertyOfNullish)
      | VStr s \<Rightarrow>
          Inr (stringIndexOfFrom (case x of VStr n \<Rightarrow> n | _ \<Rightarrow> ToStringOf rt x) s 0)
      | VRef a \<Rightarrow>
          (case kind (h a) of
             ArrayObject xs \<Rightarrow> Inr (arrayIndexOfFrom x xs 0)
           | _ \<Rightarrow> Inl (EngineTypeError NotAFunction))
      | _ \<Rightarrow> Inl (EngineTypeError NotAFunction))"

text \<open>
  The elements of an array, for \<open>.filter\<close>: a value that is not an array has no such
  method.
\<close>

definition arrayElements :: "heap \<Rightarrow> val \<Rightarrow> error + val list" where
  "arrayElements h v =
     (case v of
        VUndefined \<Rightarrow> Inl (EngineTypeError PropertyOfNullish)
      | VNull \<Rightarrow> Inl (EngineTypeError PropertyOfNullish)
      | VRef a \<Rightarrow>
          (case kind (h a) of
             ArrayObject xs \<Rightarrow> Inr xs
           | _ \<Rightarrow> Inl (EngineTypeError NotAFunction))
      | _ \<Rightarrow> Inl (EngineTypeError NotAFunction))"

text \<open>\<open>Array.prototype.filter\<close> with a callback that may throw: the first throw ends it.\<close>

fun filterE :: "('a \<Rightarrow> error + bool) \<Rightarrow> 'a list \<Rightarrow> error + 'a list" where
  "filterE p [] = Inr []"
| "filterE p (x # xs) =
     (case p x of
        Inl e \<Rightarrow> Inl e
      | Inr b \<Rightarrow>
          (case filterE p xs of
             Inl e \<Rightarrow> Inl e
           | Inr ys \<Rightarrow> Inr (if b then x # ys else ys)))"

text \<open>\<open>regex.test(s)\<close>, reached only with \<open>regex\<close> neither \<open>null\<close> nor \<open>undefined\<close>.\<close>

definition regexTest :: "heap \<Rightarrow> val \<Rightarrow> string \<Rightarrow> error + bool" where
  "regexTest h regex s =
     (case regex of
        VRef a \<Rightarrow>
          (case kind (h a) of
             RegExpObject t \<Rightarrow> Inr (t s)
           | _ \<Rightarrow> Inl (EngineTypeError NotAFunction))
      | _ \<Rightarrow> Inl (EngineTypeError NotAFunction))"

text \<open>
  \<open>v()\<close>: a function object does what its outcome says; calling anything else throws the
  engine's \<open>TypeError\<close> object, which a surrounding \<open>try\<close> catches like any other value.
\<close>

definition invoke :: "engine \<Rightarrow> heap \<Rightarrow> val \<Rightarrow> call_outcome" where
  "invoke rt h v =
     (case v of
        VRef a \<Rightarrow>
          (case kind (h a) of
             FunctionObject oc \<Rightarrow> oc
           | _ \<Rightarrow> Throws (NotCallableError rt))
      | _ \<Rightarrow> Throws (NotCallableError rt))"

definition isCallable :: "heap \<Rightarrow> val \<Rightarrow> bool" where
  "isCallable h v =
     (case v of
        VRef a \<Rightarrow> (case kind (h a) of FunctionObject _ \<Rightarrow> True | _ \<Rightarrow> False)
      | _ \<Rightarrow> False)"

text \<open>
  \<open>v instanceof c\<close>: a \<open>TypeError\<close> when \<open>c\<close> is not callable, false for a primitive
  \<open>v\<close>, otherwise whether \<open>c\<close> is among the constructors of \<open>v\<close>.
\<close>

definition instanceOf :: "heap \<Rightarrow> val \<Rightarrow> val \<Rightarrow> error + bool" where
  "instanceOf h v c =
     (case c of
        VRef ca \<Rightarrow>
          (case kind (h ca) of
             FunctionObject _ \<Rightarrow>
               (case v of
                  VRef a \<Rightarrow> Inr (ca \<in> set (instances (h a)))
                | _ \<Rightarrow> Inr False)
           | _ \<Rightarrow> Inl (EngineTypeError InstanceofNotCallable))
      | _ \<Rightarrow> Inl (EngineTypeError InstanceofNotCallable))"

section \<open>The Matcher\<close>

record matcher =
  actualValue :: val
  shouldMatch :: bool

definition Expect :: "val \<Rightarrow> matcher" where
  "Expect actual = \<lparr>actualValue = actual, shouldMatch = True\<rparr>"

text \<open>
  The getter \<open>not\<close> assigns \<open>this._shouldMatch = !this._shouldMatch\<close> and returns
  \<open>this\<close>: on the state of the object it is the toggle \<open>not\<close>; \<open>not_get\<close> is the same
  step on a store of Matcher objects, where the object returned is a reference.
\<close>

definition not :: "matcher \<Rightarrow> matcher" where
  "not m = m\<lparr>shouldMatch := \<not> shouldMatch m\<rparr>"

type_synonym matcher_ref = nat

type_synonym matcher_store = "matcher_ref \<Rightarrow> matcher"

definition not_get :: "matcher_ref \<Rightarrow> matcher_store \<Rightarrow> matcher_ref \<times> matcher_store" where
  "not_get this st = (this, st(this := not (st this)))"

subsection \<open>toBe, toBeDefined, toBeNull, toBeTruthy\<close>

definition toBe :: "matcher \<Rightarrow> val \<Rightarrow> error + unit" where
  "toBe m expectedValue =
     (if (\<not> strictEq expectedValue (actualValue m)) = shouldMatch m
      then Inl (ExactMatchError (actualValue m) expectedValue (shouldMatch m))
      else Inr ())"

definition toBeDefined :: "matcher \<Rightarrow> error + unit" where
  "toBeDefined m =
     (if strictEq (actualValue m) VUndefined = shouldMatch m
      then Inl (ExactMatchError (actualValue m) VUndefined (\<not> shouldMatch m))
      else Inr ())"

definition toBeNull :: "matcher \<Rightarrow> error + unit" where
  "toBeNull m =
     (if (\<not> strictEq (actualValue m) VNull) = shouldMatch m
      then Inl (ExactMatchError (actualValue m) VNull (shouldMatch m))
      else Inr ())"

definition toBeTruthy :: "matcher \<Rightarrow> error + unit" where
  "toBeTruthy m =
     (if (truthy (actualValue m) \<and> \<not> shouldMatch m)
         \<or> (\<not> truthy (actualValue m) \<and> shouldMatch m)
      then Inl (TruthyMatchError (actualValue m) (shouldMatch m))
      else Inr ())"

subsection \<open>toEqual and its deep path\<close>

text \<open>
  The loop of \<open>_checkObjectsAreDeepEqual\<close> over the keys of \<open>objectA\<close>. The recursive
  call is the parameter \<open>deeper\<close>; its answer \<open>None\<close> is a call that has not returned.
\<close>

fun checkProperties ::
  "(val \<Rightarrow> val \<Rightarrow> (error + bool) option) \<Rightarrow> engine \<Rightarrow> heap \<Rightarrow> val \<Rightarrow> val
     \<Rightarrow> key list \<Rightarrow> (error + bool) option" where
  "checkProperties deeper rt h objectA objectB [] = Some (Inr True)"
| "checkProperties deeper rt h objectA objectB (objectAKey # rest) =
     (case getProp rt h objectA objectAKey of
        Inl e \<Rightarrow> Some (Inl e)
      | Inr va \<Rightarrow>
          (case getProp rt h objectB objectAKey of
             Inl e \<Rightarrow> Some (Inl e)
           | Inr vb \<Rightarrow>
               if \<not> strictEq va vb then
                 (if typeof h va \<noteq> TObject then Some (Inr False)
                  else
                    (case deeper va vb of
                       None \<Rightarrow> None
                     | Some (Inl e) \<Rightarrow> Some (Inl e)
                     | Some (Inr r) \<Rightarrow>
                         if r = False then Some (Inr False)
                         else checkProperties deeper rt h objectA objectB rest))
               else checkProperties deeper rt h objectA objectB rest))"

text \<open>
  \<open>_checkObjectsAreDeepEqual\<close>. The source recurses without a bound; the first argument
  bounds the depth of the recursion, and \<open>None\<close> says that this depth was not enough.
\<close>

fun checkObjectsAreDeepEqual ::
  "nat \<Rightarrow> engine \<Rightarrow> heap \<Rightarrow> val \<Rightarrow> val \<Rightarrow> (error + bool) option" where
  "checkObjectsAreDeepEqual 0 rt h objectA objectB = None"
| "checkObjectsAreDeepEqual (Suc depth) rt h objectA objectB =
     (if isArray h objectA \<noteq> isArray h objectB then Some (Inr False)
      else
        (case objectKeys h objectA of
           Inl e \<Rightarrow> Some (Inl e)
         | Inr objectAKeys \<Rightarrow>
             (case objectKeys h objectB of
                Inl e \<Rightarrow> Some (Inl e)
              | Inr objectBKeys \<Rightarrow>
                  if length objectAKeys \<noteq> length objectBKeys then Some (Inr False)
                  else checkProperties (checkObjectsAreDeepEqual depth rt h) rt h
                         objectA objectB objectAKeys)))"

definition toEqual :: "engine \<Rightarrow> nat \<Rightarrow> heap \<Rightarrow> matcher \<Rightarrow> val \<Rightarrow> (error + unit) option" where
  "toEqual rt depth h m expectedValue =
     (if (\<not> looseEq rt expectedValue (actualValue m)) = shouldMatch m then
        (if typeof h expectedValue \<noteq> TObject
         then Some (Inl (EqualMatchError (actualValue m) expectedValue (shouldMatch m)))
         else
           (case checkObjectsAreDeepEqual depth rt h expectedValue (actualValue m) of
              None \<Rightarrow> None
            | Some (Inl e) \<Rightarrow> Some (Inl e)
            | Some (Inr r) \<Rightarrow>
                if r \<noteq> shouldMatch m
                then Some (Inl (EqualMatchError (actualValue m) expectedValue (shouldMatch m)))
                else Some (Inr ())))
      else Some (Inr ()))"

text \<open>
  The deep path returns \<open>r\<close> when some depth is enough for it to return \<open>r\<close>.
\<close>

definition deepEqualReturns ::
  "engine \<Rightarrow> heap \<Rightarrow> val \<Rightarrow> val \<Rightarrow> error + bool \<Rightarrow> bool" where
  "deepEqualReturns rt h objectA objectB r =
     (\<exists>depth. checkObjectsAreDeepEqual depth rt h objectA objectB = Some r)"

text \<open>
  What one round of the loop asks of a key: the two property values are \<open>===\<close>, or the
  one of \<open>objectA\<close> has type \<open>object\<close> and the recursive call answers true.
\<close>

definition keyAgrees ::
  "(val \<Rightarrow> val \<Rightarrow> (error + bool) option) \<Rightarrow> engine \<Rightarrow> heap \<Rightarrow> val \<Rightarrow> val \<Rightarrow> key
     \<Rightarrow> bool" where
  "keyAgrees deeper rt h objectA objectB k =
     (\<exists>va vb. getProp rt h objectA k = Inr va \<and> getProp rt h objectB k = Inr vb
        \<and> (strictEq va vb \<or> (typeof h va = TObject \<and> deeper va vb = Some (Inr True))))"

subsection \<open>toMatch, toContain, toBeLessThan, toBeGreaterThan\<close>

text \<open>
  Past the \<open>typeof\<close> test the actual value is a string, so the last case of \<open>toMatch\<close>
  is never taken.
\<close>

definition toMatch :: "heap \<Rightarrow> matcher \<Rightarrow> val \<Rightarrow> error + unit" where
  "toMatch h m regex =
     (if strictEq regex VNull \<or> strictEq regex VUndefined
      then Inl (TypeError ''toMatch regular expression must not be null or undefined.'')
      else if typeof h (actualValue m) \<noteq> TString
      then Inl (TypeError ''toMatch must only be used to match on strings.'')
      else
        (case actualValue m of
           VStr s \<Rightarrow>
             bindE (regexTest h regex s) (\<lambda>t.
               if (\<not> t) = shouldMatch m
               then Inl (RegexMatchError (actualValue m) regex (shouldMatch m))
               else Inr ())
         | _ \<Rightarrow> Inl (TypeError ''toMatch must only be used to match on strings.'')))"

definition toContain :: "engine \<Rightarrow> heap \<Rightarrow> matcher \<Rightarrow> val \<Rightarrow> error + unit" where
  "toContain rt h m expectedContent =
     bindE (indexOf rt h (actualValue m) expectedContent) (\<lambda>i.
       if (i = - 1) = shouldMatch m
       then Inl (ContentsMatchError (actualValue m) expectedContent (shouldMatch m))
       else Inr ())"

definition toBeLessThan :: "engine \<Rightarrow> matcher \<Rightarrow> val \<Rightarrow> error + unit" where
  "toBeLessThan rt m upperLimit =
     (if jsLess rt (actualValue m) upperLimit \<noteq> shouldMatch m
      then Inl (LessThanMatchError (actualValue m) upperLimit (shouldMatch m))
      else Inr ())"

definition toBeGreaterThan :: "engine \<Rightarrow> matcher \<Rightarrow> val \<Rightarrow> error + unit" where
  "toBeGreaterThan rt m lowerLimit =
     (if jsGreater rt (actualValue m) lowerLimit \<noteq> shouldMatch m
      then Inl (GreaterThanMatchError (actualValue m) lowerLimit (shouldMatch m))
      else Inr ())"

subsection \<open>toThrow, toThrowError\<close>

text \<open>
  The call stands inside \<open>try\<close>: whatever it throws is caught, also the engine's
  \<open>TypeError\<close> for a value that cannot be called. \<open>errorThrown\<close> stays \<open>undefined\<close>
  when nothing was thrown.
\<close>

definition toThrow :: "engine \<Rightarrow> heap \<Rightarrow> matcher \<Rightarrow> error + unit" where
  "toThrow rt h m =
     bindE
       (case invoke rt h (actualValue m) of
          Returns \<Rightarrow> Inr VUndefined
        | Throws error \<Rightarrow>
            if \<not> shouldMatch m then Inl (ErrorMatchError error (shouldMatch m) None)
            else Inr error)
       (\<lambda>errorThrown.
          if shouldMatch m \<and> strictEq errorThrown VUndefined
          then Inl (ErrorMatchError VUndefined (shouldMatch m) None)
          else Inr ())"

definition toThrowError :: "engine \<Rightarrow> heap \<Rightarrow> matcher \<Rightarrow> val \<Rightarrow> val \<Rightarrow> error + unit" where
  "toThrowError rt h m errorType errorMessage =
     bindE
       (case invoke rt h (actualValue m) of
          Returns \<Rightarrow> Inr (False, VUndefined)
        | Throws error \<Rightarrow>
            bindE (instanceOf h error errorType) (\<lambda>isInstance.
              if isInstance then
                bindE (getProp rt h error (Name ''message'')) (\<lambda>message.
                  Inr (strictEq message errorMessage, error))
              else Inr (False, error)))
       (\<lambda>(threwRightError, actualError).
          if (\<not> threwRightError) = shouldMatch m
          then Inl (ErrorMatchError actualError (shouldMatch m)
                      (Some (errorType, errorMessage)))
          else Inr ())"

subsection \<open>toHaveBeenCalled, toHaveBeenCalledWith, toHaveBeenSet, toHaveBeenSetTo\<close>

definition toHaveBeenCalled :: "engine \<Rightarrow> heap \<Rightarrow> matcher \<Rightarrow> error + unit" where
  "toHaveBeenCalled rt h m =
     bindE (getProp rt h (actualValue m) (Name ''calls'')) (\<lambda>calls.
     bindE (getProp rt h calls (Name ''length'')) (\<lambda>len.
       if strictEq len (VNum (Fin 0)) = shouldMatch m
       then Inl (FunctionCallMatchError (actualValue m) (shouldMatch m) None)
       else Inr ()))"

text \<open>\<open>args[index]\<close> on the rest parameter: \<open>undefined\<close> beyond its end.\<close>

definition argAt :: "val list \<Rightarrow> nat \<Rightarrow> val" where
  "argAt args index = (if index < length args then args ! index else VUndefined)"

text \<open>
  The callback of the outer \<open>filter\<close>: the arguments of the call that equal the expected
  ones at their position are as many as the expected ones, and the call has as many
  arguments as expected.
\<close>

definition callMatches :: "engine \<Rightarrow> heap \<Rightarrow> val list \<Rightarrow> val \<Rightarrow> error + bool" where
  "callMatches rt h args call =
     bindE (getProp rt h call (Name ''args'')) (\<lambda>callArgs.
     bindE (arrayElements h callArgs) (\<lambda>elems.
       if length (filter (\<lambda>(arg, index). strictEq arg (argAt args index))
                    (zip elems [0..<length elems])) = length args
       then bindE (getProp rt h callArgs (Name ''length'')) (\<lambda>len.
              Inr (strictEq len (VNum (Fin (of_nat (length args))))))
       else Inr False))"

definition toHaveBeenCalledWith ::
  "engine \<Rightarrow> heap \<Rightarrow> matcher \<Rightarrow> val list \<Rightarrow> error + unit" where
  "toHaveBeenCalledWith rt h m args =
     bindE (getProp rt h (actualValue m) (Name ''calls'')) (\<lambda>calls.
     bindE (arrayElements h calls) (\<lambda>callList.
     bindE (filterE (callMatches rt h args) callList) (\<lambda>matching.
       if (length matching = 0) = shouldMatch m
       then Inl (FunctionCallMatchError (actualValue m) (shouldMatch m) (Some args))
       else Inr ())))"

definition toHaveBeenSet :: "engine \<Rightarrow> heap \<Rightarrow> matcher \<Rightarrow> error + unit" where
  "toHaveBeenSet rt h m =
     bindE (getProp rt h (actualValue m) (Name ''setCalls'')) (\<lambda>setCalls.
     bindE (getProp rt h setCalls (Name ''length'')) (\<lambda>len.
       if strictEq len (VNum (Fin 0)) = shouldMatch m
       then Inl (PropertySetMatchError (actualValue m) (shouldMatch m) None)
       else Inr ()))"

definition setCallMatches :: "engine \<Rightarrow> heap \<Rightarrow> val \<Rightarrow> val \<Rightarrow> error + bool" where
  "setCallMatches rt h v call =
     bindE (getProp rt h call (Name ''args'')) (\<lambda>callArgs.
     bindE (getProp rt h callArgs (Idx 0)) (\<lambda>first.
       Inr (strictEq first v)))"

definition toHaveBeenSetTo :: "engine \<Rightarrow> heap \<Rightarrow> matcher \<Rightarrow> val \<Rightarrow> error + unit" where
  "toHaveBeenSetTo rt h m v =
     bindE (getProp rt h (actualValue m) (Name ''setCalls'')) (\<lambda>setCalls.
     bindE (arrayElements h setCalls) (\<lambda>callList.
     bindE (filterE (setCallMatches rt h v) callList) (\<lambda>matching.
       if (length matching = 0) = shouldMatch m
       then Inl (PropertySetMatchError (actualValue m) (shouldMatch m) (Some v))
       else Inr ())))"

subsection \<open>Every operation, by name\<close>

datatype operation =
    ToBe val
  | ToEqual val
  | ToMatch val
  | ToBeDefined
  | ToBeNull
  | ToBeTruthy
  | ToContain val
  | ToBeLessThan val
  | ToBeGreaterThan val
  | ToThrow
  | ToThrowError val val
  | ToHaveBeenCalled
  | ToHaveBeenCalledWith "val list"
  | ToHaveBeenSet
  | ToHaveBeenSetTo val

fun perform :: "engine \<Rightarrow> nat \<Rightarrow> heap \<Rightarrow> matcher \<Rightarrow> operation \<Rightarrow> (error + unit) option" where
  "perform rt depth h m (ToBe v) = Some (toBe m v)"
| "perform rt depth h m (ToEqual v) = toEqual rt depth h m v"
| "perform rt depth h m (ToMatch r) = Some (toMatch h m r)"
| "perform rt depth h m ToBeDefined = Some (toBeDefined m)"
| "perform rt depth h m ToBeNull = Some (toBeNull m)"
| "perform rt depth h m ToBeTruthy = Some (toBeTruthy m)"
| "perform rt depth h m (ToContain v) = Some (toContain rt h m v)"
| "perform rt depth h m (ToBeLessThan v) = Some (toBeLessThan rt m v)"
| "perform rt depth h m (ToBeGreaterThan v) = Some (toBeGreaterThan rt m v)"
| "perform rt depth h m ToThrow = Some (toThrow rt h m)"
| "perform rt depth h m (ToThrowError t msg) = Some (toThrowError rt h m t msg)"
| "perform rt depth h m ToHaveBeenCalled = Some (toHaveBeenCalled rt h m)"
| "perform rt depth h m (ToHaveBeenCalledWith args) = Some (toHaveBeenCalledWith rt h m args)"
| "perform rt depth h m ToHaveBeenSet = Some (toHaveBeenSet rt h m)"
| "perform rt depth h m (ToHaveBeenSetTo v) = Some (toHaveBeenSetTo rt h m v)"

section \<open>The structural equality of the specification\<close>

text \<open>
  The specification's words for the deep path, to compare with the code: two values are
  deep-equal when both are arrays or neither is, they have the same number of own
  enumerable keys, and for every key the two values are strictly equal or, when both are
  non-primitive, recursively deep-equal. The keys are those of the first value, the ones
  the code walks; the depth bounds the recursion as it does for the code.
\<close>

definition isPrimitive :: "val \<Rightarrow> bool" where
  "isPrimitive v = (case v of VRef _ \<Rightarrow> False | _ \<Rightarrow> True)"

definition keysOrNone :: "heap \<Rightarrow> val \<Rightarrow> key list" where
  "keysOrNone h v = (case objectKeys h v of Inl _ \<Rightarrow> [] | Inr ks \<Rightarrow> ks)"

definition valueAt :: "engine \<Rightarrow> heap \<Rightarrow> val \<Rightarrow> key \<Rightarrow> val" where
  "valueAt rt h v k = (case getProp rt h v k of Inl _ \<Rightarrow> VUndefined | Inr x \<Rightarrow> x)"

fun spec_deepEqual :: "nat \<Rightarrow> engine \<Rightarrow> heap \<Rightarrow> val \<Rightarrow> val \<Rightarrow> bool" where
  "spec_deepEqual 0 rt h x y = False"
| "spec_deepEqual (Suc depth) rt h x y =
     (isArray h x = isArray h y
      \<and> length (keysOrNone h x) = length (keysOrNone h y)
      \<and> (\<forall>k \<in> set (keysOrNone h x).
            strictEq (valueAt rt h x k) (valueAt rt h y k)
            \<or> (\<not> isPrimitive (valueAt rt h x k) \<and> \<not> isPrimitive (valueAt rt h y k)
               \<and> spec_deepEqual depth rt h (valueAt rt h x k) (valueAt rt h y k))))"

section \<open>Example objects\<close>

text \<open>
  The built-in functions of the example heaps live at the addresses from 100 on; what
  calling them does plays no part in the examples. The prototypes below list the members
  the language standard (edition 5.1) gives them, each followed by the prototypes behind
  it.
\<close>

definition builtinMembers :: "addr \<Rightarrow> string list \<Rightarrow> (key \<times> val) list" where
  "builtinMembers base names =
     map (\<lambda>(n, i). (Name n, VRef (base + i))) (zip names [0..<length names])"

definition objectPrototype :: "(key \<times> val) list" where
  "objectPrototype = builtinMembers 100
     [''constructor'', ''toString'', ''toLocaleString'', ''valueOf'', ''hasOwnProperty'',
      ''isPrototypeOf'', ''propertyIsEnumerable'']"

definition functionPrototype :: "(key \<times> val) list" where
  "functionPrototype = builtinMembers 110
     [''constructor'', ''toString'', ''apply'', ''call'', ''bind'']
     @ [(Name ''length'', VNum (Fin 0)), (Name ''name'', VStr [])]
     @ objectPrototype"

definition arrayPrototype :: "(key \<times> val) list" where
  "arrayPrototype = builtinMembers 120
     [''constructor'', ''toString'', ''toLocaleString'', ''concat'', ''join'', ''pop'',
      ''push'', ''reverse'', ''shift'', ''slice'', ''sort'', ''splice'', ''unshift'',
      ''indexOf'', ''lastIndexOf'', ''every'', ''some'', ''forEach'', ''map'', ''filter'',
      ''reduce'', ''reduceRight'']
     @ objectPrototype"

definition stringPrototype :: "(key \<times> val) list" where
  "stringPrototype = builtinMembers 150
     [''constructor'', ''toString'', ''valueOf'', ''charAt'', ''charCodeAt'', ''concat'',
      ''indexOf'', ''lastIndexOf'', ''localeCompare'', ''match'', ''replace'', ''search'',
      ''slice'', ''split'', ''substring'', ''toLowerCase'', ''toLocaleLowerCase'',
      ''toUpperCase'', ''toLocaleUpperCase'', ''trim'']
     @ objectPrototype"

definition numberPrototype :: "(key \<times> val) list" where
  "numberPrototype = builtinMembers 180
     [''constructor'', ''toString'', ''toLocaleString'', ''valueOf'', ''toFixed'',
      ''toExponential'', ''toPrecision'']
     @ objectPrototype"

definition booleanPrototype :: "(key \<times> val) list" where
  "booleanPrototype = builtinMembers 190 [''constructor'', ''toString'', ''valueOf'']
     @ objectPrototype"

definition regExpPrototype :: "(key \<times> val) list" where
  "regExpPrototype = builtinMembers 200 [''constructor'', ''exec'', ''test'', ''toString'']
     @ objectPrototype"

text \<open>
  The prototype chain of an error made by the constructor at \<open>ctor\<close>: the prototype of
  that constructor, then \<open>Error.prototype\<close>, then \<open>Object.prototype\<close>.
\<close>

definition errorPrototype :: "addr \<Rightarrow> string \<Rightarrow> addr \<Rightarrow> (key \<times> val) list" where
  "errorPrototype ctor name errorCtor =
     [(Name ''constructor'', VRef ctor), (Name ''name'', VStr name),
      (Name ''message'', VStr [])]
     @ [(Name ''constructor'', VRef errorCtor), (Name ''name'', VStr ''Error''),
        (Name ''message'', VStr []), (Name ''toString'', VRef 210)]
     @ objectPrototype"

text \<open>An object literal: enumerable own properties, \<open>Object.prototype\<close> behind it.\<close>

definition plainObject :: "(string \<times> val) list \<Rightarrow> obj" where
  "plainObject ps =
     \<lparr>kind = PlainObject, props = map (\<lambda>(k, v). (Name k, v, True)) ps,
      inherited = objectPrototype, instances = [100]\<rparr>"

definition arrayObject :: "val list \<Rightarrow> obj" where
  "arrayObject xs =
     \<lparr>kind = ArrayObject xs, props = [], inherited = arrayPrototype, instances = [120, 100]\<rparr>"

text \<open>A function without parameters and without a name.\<close>

definition functionObject :: "call_outcome \<Rightarrow> obj" where
  "functionObject oc =
     \<lparr>kind = FunctionObject oc,
      props = [(Name ''length'', VNum (Fin 0), False), (Name ''name'', VStr [], False)],
      inherited = functionPrototype, instances = [110, 100]\<rparr>"

text \<open>
  An error object of the constructors \<open>ctors\<close> (the nearest first, \<open>Error\<close> last):
  \<open>message\<close> is an own property that is not enumerable.
\<close>

definition errorObject :: "addr list \<Rightarrow> string \<Rightarrow> string \<Rightarrow> obj" where
  "errorObject ctors name msg =
     \<lparr>kind = PlainObject, props = [(Name ''message'', VStr msg, False)],
      inherited = errorPrototype (hd ctors) name (last ctors),
      instances = ctors @ [100]\<rparr>"

text \<open>
  A regular expression without flags: its own properties are not enumerable.
\<close>

definition regExpObject :: "string \<Rightarrow> (string \<Rightarrow> bool) \<Rightarrow> obj" where
  "regExpObject source test =
     \<lparr>kind = RegExpObject test,
      props = [(Name ''source'', VStr source, False), (Name ''global'', VBool False, False),
               (Name ''ignoreCase'', VBool False, False),
               (Name ''multiline'', VBool False, False),
               (Name ''lastIndex'', VNum (Fin 0), False)],
      inherited = regExpPrototype, instances = [200, 100]\<rparr>"

text \<open>
  The heap before the program has made an object: the built-in functions from address
  100 on, and below them empty objects for the examples to overwrite.
\<close>

definition emptyHeap :: heap where
  "emptyHeap = (\<lambda>a. if 100 \<le> a then functionObject Returns else plainObject [])"

text \<open>
  Address 1 and 3: two objects \<open>{a: 1, b: {c: 2}}\<close>, with the inner objects at 2 and 4.
  Address 5 and 7: two objects \<open>{a: 1}\<close>. Address 6: \<open>{a: 1, b: 2}\<close>.
\<close>

definition objectsHeap :: heap where
  "objectsHeap = emptyHeap
     (1 := plainObject [(''a'', VNum (Fin 1)), (''b'', VRef 2)],
      2 := plainObject [(''c'', VNum (Fin 2))],
      3 := plainObject [(''a'', VNum (Fin 1)), (''b'', VRef 4)],
      4 := plainObject [(''c'', VNum (Fin 2))],
      5 := plainObject [(''a'', VNum (Fin 1))],
      6 := plainObject [(''a'', VNum (Fin 1)), (''b'', VNum (Fin 2))],
      7 := plainObject [(''a'', VNum (Fin 1))])"

text \<open>
  Address 1 and 2: \<open>{f: function}\<close> with two different functions, at 3 and 4.
  Address 5: \<open>{a: {}}\<close> with the empty object at 0. Address 6: \<open>{a: 5}\<close>.
  Address 7: \<open>{constructor: {}}\<close>. Address 8: \<open>{x: 1}\<close>.
  Address 9: \<open>{constructor: String}\<close>, the function \<open>String\<close> being at 150.
\<close>

definition mixedHeap :: heap where
  "mixedHeap = emptyHeap
     (1 := plainObject [(''f'', VRef 3)],
      2 := plainObject [(''f'', VRef 4)],
      3 := functionObject Returns,
      4 := functionObject Returns,
      5 := plainObject [(''a'', VRef 0)],
      6 := plainObject [(''a'', VNum (Fin 5))],
      7 := plainObject [(''constructor'', VRef 0)],
      8 := plainObject [(''x'', VNum (Fin 1))],
      9 := plainObject [(''constructor'', VRef 150)])"

text \<open>Address 1 and 2: two objects, each with a property \<open>self\<close> that refers to itself.\<close>

definition cyclicHeap :: heap where
  "cyclicHeap = emptyHeap
     (1 := plainObject [(''self'', VRef 1)],
      2 := plainObject [(''self'', VRef 2)])"

text \<open>
  Address 1: the constructor \<open>RangeError\<close>; 2: \<open>Error\<close>; 3: \<open>TypeError\<close>.
  Address 4: a \<open>RangeError\<close> with message \<open>bad\<close>; 5: a function that throws it.
  Address 6: a \<open>TypeError\<close> with message \<open>bad\<close>; 7: a function that throws it.
  Address 8: a function that returns. Address 9: the \<open>TypeError\<close> of the engine for a
  call of a value that is not callable.
\<close>

definition errorsHeap :: heap where
  "errorsHeap = emptyHeap
     (1 := functionObject Returns,
      2 := functionObject Returns,
      3 := functionObject Returns,
      4 := errorObject [1, 2] ''RangeError'' ''bad'',
      5 := functionObject (Throws (VRef 4)),
      6 := errorObject [3, 2] ''TypeError'' ''bad'',
      7 := functionObject (Throws (VRef 6)),
      8 := functionObject Returns,
      9 := errorObject [3, 2] ''TypeError'' ''is not a function'')"

text \<open>
  Address 1: the regular expression \<open>/^a/\<close>, which accepts the strings starting with
  \<open>a\<close>. Address 2: the array \<open>[1]\<close>. Address 3: \<open>{a: null}\<close>. Address 4: \<open>{a: 1}\<close>.
\<close>

definition miscHeap :: heap where
  "miscHeap = emptyHeap
     (1 := regExpObject ''^a'' (\<lambda>s. take 1 s = ''a''),
      2 := arrayObject [VNum (Fin 1)],
      3 := plainObject [(''a'', VNull)],
      4 := plainObject [(''a'', VNum (Fin 1))])"

text \<open>
  An engine for the examples. None of them compares values of different types, so the
  conversions are never asked; the error for a call of a non-callable is the object at
  address 9 of \<open>errorsHeap\<close>.
\<close>

definition exampleEngine :: engine where
  "exampleEngine =
     \<lparr>LooseEqMixed = (\<lambda>x y. False), LessMixed = (\<lambda>x y. False),
      ToStringOf = (\<lambda>v. []), NotCallableError = VRef 9,
      StringPrototype = stringPrototype, NumberPrototype = numberPrototype,
      BooleanPrototype = booleanPrototype\<rparr>"

section \<open>Facts about the built-ins and the deep path\<close>

lemmas heap_defs = objectsHeap_def mixedHeap_def cyclicHeap_def errorsHeap_def miscHeap_def
  emptyHeap_def plainObject_def arrayObject_def functionObject_def errorObject_def
  regExpObject_def

lemmas builtin_defs = typeof_def strictEq_def nullish_def looseEq_def isArray_def
  enumerableKeys_def objectKeys_def getProp_def lookupProp_def bindE_def

text \<open>The engine's own errors are type errors, never match errors.\<close>

lemma regexTest_error: "regexTest h r s = Inl e \<Longrightarrow> \<not> isMatchError e"
  by (auto simp: regexTest_def split: val.splits kind.splits)

lemma getProp_error: "getProp rt h v k = Inl e \<Longrightarrow> \<not> isMatchError e"
  by (auto simp: getProp_def split: val.splits kind.splits key.splits)

lemma indexOf_error: "indexOf rt h v x = Inl e \<Longrightarrow> \<not> isMatchError e"
  by (auto simp: indexOf_def split: val.splits kind.splits)

lemma arrayElements_error: "arrayElements h v = Inl e \<Longrightarrow> \<not> isMatchError e"
  by (auto simp: arrayElements_def split: val.splits kind.splits)

lemma instanceOf_error: "instanceOf h v c = Inl e \<Longrightarrow> \<not> isMatchError e"
  by (auto simp: instanceOf_def split: val.splits kind.splits)

lemma filterE_error:
  "(\<And>x e. p x = Inl e \<Longrightarrow> \<not> isMatchError e) \<Longrightarrow> filterE p xs = Inl e \<Longrightarrow> \<not> isMatchError e"
  by (induction xs) (auto split: sum.splits)

lemma callMatches_error: "callMatches rt h args call = Inl e \<Longrightarrow> \<not> isMatchError e"
  by (auto simp: callMatches_def bindE_def split: sum.splits if_splits
           dest: getProp_error arrayElements_error)

lemma setCallMatches_error: "setCallMatches rt h v call = Inl e \<Longrightarrow> \<not> isMatchError e"
  by (auto simp: setCallMatches_def bindE_def split: sum.splits dest: getProp_error)

lemma filter_calls_error:
  "filterE (callMatches rt h args) xs = Inl e \<Longrightarrow> \<not> isMatchError e"
  using filterE_error [where p = "callMatches rt h args"] callMatches_error by blast

lemma filter_setCalls_error:
  "filterE (setCallMatches rt h v) xs = Inl e \<Longrightarrow> \<not> isMatchError e"
  using filterE_error [where p = "setCallMatches rt h v"] setCallMatches_error by blast

lemmas builtin_errors = regexTest_error getProp_error indexOf_error arrayElements_error
  instanceOf_error filter_calls_error filter_setCalls_error

text \<open>
  A deeper bound never changes an answer: what the deep path returns within some depth it
  returns within every larger one. So \<open>None\<close> at every depth is a recursion that does
  not end.
\<close>

lemma checkProperties_mono:
  assumes "\<And>x y r. f x y = Some r \<Longrightarrow> g x y = Some r"
  shows "checkProperties f rt h a b ks = Some r \<Longrightarrow> checkProperties g rt h a b ks = Some r"
proof (induction ks)
  case Nil
  then show ?case by simp
next
  case (Cons k ks)
  then show ?case
    by (auto split: sum.splits if_splits option.splits dest: assms)
qed

lemma deep_mono_Suc:
  "checkObjectsAreDeepEqual d rt h a b = Some r
     \<Longrightarrow> checkObjectsAreDeepEqual (Suc d) rt h a b = Some r"
proof (induction d arbitrary: a b r)
  case 0
  then show ?case by simp
next
  case (Suc d)
  have step: "\<And>x y r. checkObjectsAreDeepEqual d rt h x y = Some r
                 \<Longrightarrow> checkObjectsAreDeepEqual (Suc d) rt h x y = Some r"
    by (rule Suc.IH)
  from Suc.prems show ?case
    by (auto simp del: checkObjectsAreDeepEqual.simps(2)
             simp add: checkObjectsAreDeepEqual.simps(2) [of "Suc d"]
                       checkObjectsAreDeepEqual.simps(2) [of d]
             split: sum.splits if_splits
             intro: checkProperties_mono [where f = "checkObjectsAreDeepEqual d rt h"
                      and g = "checkObjectsAreDeepEqual (Suc d) rt h", OF step])
qed

lemma deep_mono:
  "checkObjectsAreDeepEqual d rt h a b = Some r \<Longrightarrow> d \<le> d'
     \<Longrightarrow> checkObjectsAreDeepEqual d' rt h a b = Some r"
  by (induction d')
     (auto simp: le_Suc_eq dest: deep_mono_Suc simp del: checkObjectsAreDeepEqual.simps)

text \<open>The loop answers true exactly when every key agrees.\<close>

lemma checkProperties_True_iff:
  "checkProperties f rt h a b ks = Some (Inr True) \<longleftrightarrow> (\<forall>k \<in> set ks. keyAgrees f rt h a b k)"
  unfolding keyAgrees_def
  by (induction ks) (auto split: sum.splits option.splits)

lemma keyAgrees_deeper:
  "keyAgrees (checkObjectsAreDeepEqual d rt h) rt h a b k \<Longrightarrow> d \<le> d'
     \<Longrightarrow> keyAgrees (checkObjectsAreDeepEqual d' rt h) rt h a b k"
  unfolding keyAgrees_def by (meson deep_mono)

lemma common_depth:
  "\<forall>k \<in> set ks. \<exists>d. keyAgrees (checkObjectsAreDeepEqual d rt h) rt h a b k
     \<Longrightarrow> \<exists>d. \<forall>k \<in> set ks. keyAgrees (checkObjectsAreDeepEqual d rt h) rt h a b k"
proof (induction ks)
  case Nil
  show ?case by simp
next
  case (Cons k ks)
  then obtain d where d: "\<forall>k \<in> set ks. keyAgrees (checkObjectsAreDeepEqual d rt h) rt h a b k"
    by auto
  from Cons.prems obtain e where e: "keyAgrees (checkObjectsAreDeepEqual e rt h) rt h a b k"
    by auto
  have "\<forall>k' \<in> set (k # ks). keyAgrees (checkObjectsAreDeepEqual (max d e) rt h) rt h a b k'"
    using d e by (auto intro: keyAgrees_deeper)
  then show ?case by blast
qed

text \<open>
  What the deep path computes: it returns true exactly when both values are arrays or
  neither is, both have as many own enumerable keys, and every key of \<open>objectA\<close> agrees.
\<close>

lemma deep_path_returns_true_iff:
  "(deepEqualReturns rt h objectA objectB (Inr True) \<longleftrightarrow>
      isArray h objectA = isArray h objectB
      \<and> (\<exists>keysA keysB. objectKeys h objectA = Inr keysA \<and> objectKeys h objectB = Inr keysB
            \<and> length keysA = length keysB
            \<and> (\<forall>k \<in> set keysA. \<exists>va vb. getProp rt h objectA k = Inr va \<and> getProp rt h objectB k = Inr vb
                  \<and> (strictEq va vb
                      \<or> (typeof h va = TObject \<and> deepEqualReturns rt h va vb (Inr True))))))"
proof -
  let ?rhs = "isArray h objectA = isArray h objectB
      \<and> (\<exists>keysA keysB. objectKeys h objectA = Inr keysA \<and> objectKeys h objectB = Inr keysB
            \<and> length keysA = length keysB
            \<and> (\<forall>k \<in> set keysA. \<exists>va vb. getProp rt h objectA k = Inr va \<and> getProp rt h objectB k = Inr vb
                  \<and> (strictEq va vb
                      \<or> (typeof h va = TObject \<and> deepEqualReturns rt h va vb (Inr True)))))"
  have forth: "?rhs" if "deepEqualReturns rt h objectA objectB (Inr True)"
  proof -
    from that obtain d where d: "checkObjectsAreDeepEqual d rt h objectA objectB = Some (Inr True)"
      by (auto simp: deepEqualReturns_def)
    then obtain d' where d': "d = Suc d'" by (cases d) auto
    from d have arr: "isArray h objectA = isArray h objectB" unfolding d'
      by (simp split: if_splits)
    from d arr obtain keysA keysB where ks: "objectKeys h objectA = Inr keysA"
        "objectKeys h objectB = Inr keysB" "length keysA = length keysB"
        "checkProperties (checkObjectsAreDeepEqual d' rt h) rt h objectA objectB keysA = Some (Inr True)"
      unfolding d' by (auto split: if_splits sum.splits)
    from ks(4) have "\<forall>k \<in> set keysA. \<exists>va vb. getProp rt h objectA k = Inr va \<and> getProp rt h objectB k = Inr vb
                  \<and> (strictEq va vb
                      \<or> (typeof h va = TObject \<and> deepEqualReturns rt h va vb (Inr True)))"
      unfolding checkProperties_True_iff keyAgrees_def deepEqualReturns_def by blast
    with arr ks(1-3) show ?thesis by blast
  qed
  have bwd: "deepEqualReturns rt h objectA objectB (Inr True)" if r: "?rhs"
  proof -
    from r obtain keysA keysB where ks: "objectKeys h objectA = Inr keysA"
        "objectKeys h objectB = Inr keysB" "length keysA = length keysB"
      and all: "\<forall>k \<in> set keysA. \<exists>va vb. getProp rt h objectA k = Inr va \<and> getProp rt h objectB k = Inr vb
                  \<and> (strictEq va vb
                      \<or> (typeof h va = TObject \<and> deepEqualReturns rt h va vb (Inr True)))"
      by blast
    have "\<forall>k \<in> set keysA. \<exists>d. keyAgrees (checkObjectsAreDeepEqual d rt h) rt h objectA objectB k"
      using all unfolding keyAgrees_def deepEqualReturns_def by blast
    from common_depth [OF this] obtain d where
      "checkProperties (checkObjectsAreDeepEqual d rt h) rt h objectA objectB keysA = Some (Inr True)"
      unfolding checkProperties_True_iff by blast
    with r ks have "checkObjectsAreDeepEqual (Suc d) rt h objectA objectB = Some (Inr True)"
      by simp
    then show ?thesis
      unfolding deepEqualReturns_def by blast
  qed
  from forth bwd show ?thesis by blast
qed

text \<open>
  The examples of the specification: the two distinct objects \<open>{a: 1, b: {c: 2}}\<close> are
  equal for \<open>toEqual\<close>, and \<open>{a: 1}\<close> against \<open>{a: 1, b: 2}\<close> raises.
\<close>

lemma toEqual_on_the_example_objects:
  "toEqual rt 2 objectsHeap (Expect (VRef 3)) (VRef 1) = Some (Inr ())"
  "toEqual rt 1 objectsHeap (Expect (VRef 6)) (VRef 5)
     = Some (Inl (EqualMatchError (VRef 6) (VRef 5) True))"
  by (simp_all add: toEqual_def Expect_def numeral_2_eq_2 heap_defs builtin_defs)

text \<open>
  Property reads go through the prototype chain: \<open>{constructor: {}}\<close> as the expected
  value against \<open>{x: 1}\<close> compares the empty object with the function \<open>Object\<close> that
  \<open>{x: 1}\<close> inherits, and neither has an enumerable key; \<open>{constructor: String}\<close>
  against the string \<open>a\<close> finds the same function \<open>String\<close> on both sides.
\<close>

lemma deep_path_reads_inherited_properties:
  "getProp exampleEngine mixedHeap (VRef 8) (Name ''constructor'') = Inr (VRef 100)"
  "checkObjectsAreDeepEqual 2 exampleEngine mixedHeap (VRef 7) (VRef 8) = Some (Inr True)"
  "getProp exampleEngine mixedHeap (VStr ''a'') (Name ''constructor'') = Inr (VRef 150)"
  "checkObjectsAreDeepEqual 1 exampleEngine mixedHeap (VRef 9) (VStr ''a'') = Some (Inr True)"
  by (simp_all add: numeral_2_eq_2 heap_defs builtin_defs objectPrototype_def
        stringPrototype_def exampleEngine_def builtinMembers_def)

text \<open>
  Values of type \<open>function\<close> are not recursed into: two different functions under the
  same key make the objects unequal.
\<close>

lemma deep_path_compares_functions_by_identity:
  "checkObjectsAreDeepEqual 2 exampleEngine mixedHeap (VRef 1) (VRef 2) = Some (Inr False)"
  by (simp add: numeral_2_eq_2 heap_defs builtin_defs)

text \<open>
  The specification's words at the pair of an object and a number: not deep-equal, at
  any depth.
\<close>

lemma spec_deepEqual_rejects_object_against_number:
  "\<not> spec_deepEqual depth exampleEngine mixedHeap (VRef 5) (VRef 6)"
  by (cases depth)
     (simp_all add: heap_defs builtin_defs isPrimitive_def keysOrNone_def valueAt_def)

section \<open>The polarity rule, operation by operation\<close>

text \<open>
  Each of these operations raises its match error exactly when its predicate differs from
  \<open>shouldMatch\<close>.
\<close>

lemma polarity_rule_value_operations:
  "toBe m v = (if strictEq v (actualValue m) \<noteq> shouldMatch m
               then Inl (ExactMatchError (actualValue m) v (shouldMatch m)) else Inr ())"
  "toBeDefined m = (if (\<not> strictEq (actualValue m) VUndefined) \<noteq> shouldMatch m
               then Inl (ExactMatchError (actualValue m) VUndefined (\<not> shouldMatch m))
               else Inr ())"
  "toBeNull m = (if strictEq (actualValue m) VNull \<noteq> shouldMatch m
               then Inl (ExactMatchError (actualValue m) VNull (shouldMatch m)) else Inr ())"
  "toBeTruthy m = (if truthy (actualValue m) \<noteq> shouldMatch m
               then Inl (TruthyMatchError (actualValue m) (shouldMatch m)) else Inr ())"
  "toBeLessThan rt m v = (if jsLess rt (actualValue m) v \<noteq> shouldMatch m
               then Inl (LessThanMatchError (actualValue m) v (shouldMatch m)) else Inr ())"
  "toBeGreaterThan rt m v = (if jsGreater rt (actualValue m) v \<noteq> shouldMatch m
               then Inl (GreaterThanMatchError (actualValue m) v (shouldMatch m)) else Inr ())"
  by (auto simp: toBe_def toBeDefined_def toBeNull_def toBeTruthy_def toBeLessThan_def
        toBeGreaterThan_def)

text \<open>
  \<open>toEqual\<close> with the default polarity follows the rule for the predicate "loosely equal,
  or of type object and deep-equal".
\<close>

lemma toEqual_default_polarity:
  "shouldMatch m \<Longrightarrow>
     toEqual rt depth h m expected =
       (if looseEq rt expected (actualValue m) then Some (Inr ())
        else if typeof h expected \<noteq> TObject
        then Some (Inl (EqualMatchError (actualValue m) expected True))
        else (case checkObjectsAreDeepEqual depth rt h expected (actualValue m) of
                None \<Rightarrow> None
              | Some (Inl e) \<Rightarrow> Some (Inl e)
              | Some (Inr r) \<Rightarrow>
                  if r then Some (Inr ())
                  else Some (Inl (EqualMatchError (actualValue m) expected True))))"
  by (auto simp: toEqual_def split: option.splits sum.splits)

text \<open>
  With the negated polarity the outer test lets every loosely unequal pair pass, and the
  deep path is asked only about loosely equal values.
\<close>

lemma toEqual_negated_polarity:
  "\<not> shouldMatch m \<Longrightarrow>
     toEqual rt depth h m expected =
       (if \<not> looseEq rt expected (actualValue m) then Some (Inr ())
        else if typeof h expected \<noteq> TObject
        then Some (Inl (EqualMatchError (actualValue m) expected False))
        else (case checkObjectsAreDeepEqual depth rt h expected (actualValue m) of
                None \<Rightarrow> None
              | Some (Inl e) \<Rightarrow> Some (Inl e)
              | Some (Inr r) \<Rightarrow>
                  if r then Some (Inl (EqualMatchError (actualValue m) expected False))
                  else Some (Inr ())))"
  by (auto simp: toEqual_def split: option.splits sum.splits)

text \<open>
  \<open>toThrow\<close> follows the rule for "the call throws" unless the value thrown is
  \<open>undefined\<close>, which \<open>errorThrown === undefined\<close> takes for no throw.
\<close>

lemma toThrow_polarity_rule:
  "invoke rt h (actualValue m) \<noteq> Throws VUndefined \<Longrightarrow>
     toThrow rt h m =
       (case invoke rt h (actualValue m) of
          Returns \<Rightarrow>
            if shouldMatch m then Inl (ErrorMatchError VUndefined True None) else Inr ()
        | Throws error \<Rightarrow>
            if shouldMatch m then Inr () else Inl (ErrorMatchError error False None))"
  by (auto simp: toThrow_def bindE_def strictEq_def split: call_outcome.splits)

text \<open>
  For every operation but \<open>toEqual\<close> and \<open>toThrow\<close>, the operation returns exactly when
  its negation raises a match error.
\<close>

lemma negation_complements_other_operations:
  assumes "operation \<noteq> ToThrow" and "\<And>v. operation \<noteq> ToEqual v"
  shows "perform rt depth h m operation = Some (Inr ()) \<longleftrightarrow>
           (\<exists>e. perform rt depth h (not m) operation = Some (Inl e) \<and> isMatchError e)"
proof (cases operation)
  case (ToMatch r)
  then show ?thesis
    by (auto simp: toMatch_def not_def bindE_def split: val.splits sum.splits
             dest: builtin_errors)
next
  case (ToContain v)
  then show ?thesis
    by (auto simp: toContain_def not_def bindE_def split: sum.splits dest: builtin_errors)
next
  case (ToThrowError t msg)
  then show ?thesis
    by (auto simp: toThrowError_def not_def bindE_def split: sum.splits call_outcome.splits
             dest: builtin_errors)
next
  case ToHaveBeenCalled
  then show ?thesis
    by (auto simp: toHaveBeenCalled_def not_def bindE_def split: sum.splits
             dest: builtin_errors)
next
  case (ToHaveBeenCalledWith args)
  then show ?thesis
    by (auto simp: toHaveBeenCalledWith_def not_def bindE_def split: sum.splits
             dest: builtin_errors)
next
  case ToHaveBeenSet
  then show ?thesis
    by (auto simp: toHaveBeenSet_def not_def bindE_def split: sum.splits
             dest: builtin_errors)
next
  case (ToHaveBeenSetTo v)
  then show ?thesis
    by (auto simp: toHaveBeenSetTo_def not_def bindE_def split: sum.splits
             dest: builtin_errors)
qed (use assms in \<open>auto simp: toBe_def toBeDefined_def toBeNull_def toBeTruthy_def
        toBeLessThan_def toBeGreaterThan_def not_def\<close>)

section \<open>The claims\<close>

subsection \<open>C1: the polarity rule\<close>

text \<open>
  C1: every comparison method raises its match error exactly when its predicate differs
  from \<open>shouldMatch\<close>. For \<open>toEqual\<close> the predicate is "loosely equal, or deep-equal
  when the expected value is an object". The code does not follow the rule for \<open>toEqual\<close>
  under negation: \<open>Expect({a: 1}).not.toEqual({a: 1})\<close> on two distinct objects, where
  the deep path answers true and \<open>shouldMatch\<close> is false, returns without raising.
\<close>

theorem negated_toEqual_misses_deep_equal_objects:
  "\<not> strictEq (VRef 7) (VRef 5)
   \<and> checkObjectsAreDeepEqual 1 exampleEngine objectsHeap (VRef 7) (VRef 5) = Some (Inr True)
   \<and> \<not> shouldMatch (not (Expect (VRef 5)))
   \<and> toEqual exampleEngine 1 objectsHeap (not (Expect (VRef 5))) (VRef 7) = Some (Inr ())"
  by (simp add: toEqual_def Expect_def not_def heap_defs builtin_defs)

subsection \<open>C2: negation as a complement\<close>

text \<open>
  C2: for every operation, \<open>Expect(x).op(...)\<close> returns exactly when
  \<open>Expect(x).not.op(...)\<close> raises. The code breaks this for \<open>toEqual\<close>: for the two
  distinct objects \<open>{a: 1, b: {c: 2}}\<close> both \<open>Expect(x).toEqual(y)\<close> and
  \<open>Expect(x).not.toEqual(y)\<close> return.
\<close>

theorem toEqual_and_its_negation_both_return:
  "toEqual exampleEngine 2 objectsHeap (Expect (VRef 1)) (VRef 3) = Some (Inr ())
   \<and> toEqual exampleEngine 2 objectsHeap (not (Expect (VRef 1))) (VRef 3) = Some (Inr ())"
  by (simp add: toEqual_def Expect_def not_def numeral_2_eq_2 heap_defs builtin_defs)

subsection \<open>C3: what the deep path deems equal\<close>

text \<open>
  C3: the deep path deems two values deep-equal if and only if both are arrays or neither
  is, both have the same number of own enumerable keys, and for every key the two values
  are strictly equal or, when both are non-primitive, recursively deep-equal. The code
  breaks the last clause: before it recurses it asks for the type of the expected value
  only. \<open>{a: {}}\<close> as the expected value against \<open>{a: 5}\<close> as the actual one pairs an
  object with a number under the key \<open>a\<close>; the code recurses into the pair, finds no
  keys on either side and answers true, so \<open>Expect({a: 5}).toEqual({a: {}})\<close> returns.
  With the two values exchanged the code answers false and \<open>toEqual\<close> raises.
\<close>

theorem deep_path_accepts_object_against_number:
  "getProp exampleEngine mixedHeap (VRef 5) (Name ''a'') = Inr (VRef 0)
   \<and> getProp exampleEngine mixedHeap (VRef 6) (Name ''a'') = Inr (VNum (Fin 5))
   \<and> checkObjectsAreDeepEqual 2 exampleEngine mixedHeap (VRef 5) (VRef 6) = Some (Inr True)
   \<and> toEqual exampleEngine 2 mixedHeap (Expect (VRef 6)) (VRef 5) = Some (Inr ())
   \<and> checkObjectsAreDeepEqual 2 exampleEngine mixedHeap (VRef 6) (VRef 5) = Some (Inr False)
   \<and> toEqual exampleEngine 2 mixedHeap (Expect (VRef 5)) (VRef 6)
       = Some (Inl (EqualMatchError (VRef 5) (VRef 6) True))"
  by (simp add: toEqual_def Expect_def numeral_2_eq_2 heap_defs builtin_defs)

subsection \<open>C4: reflexivity of toEqual\<close>

text \<open>
  C4, as stated, fails at \<open>NaN\<close>, which is not loosely equal to itself and is not an
  object: \<open>Expect(NaN).toEqual(NaN)\<close> raises the \<open>EqualMatchError\<close>.
\<close>

theorem toEqual_reflexive_counterexample:
  "toEqual exampleEngine 1 emptyHeap (Expect (VNum NaN)) (VNum NaN)
     = Some (Inl (EqualMatchError (VNum NaN) (VNum NaN) True))"
  by (simp add: toEqual_def Expect_def looseEq_def strictEq_def typeof_def)

text \<open>
  C4, amended: for every value \<open>v\<close> other than \<open>NaN\<close>, \<open>Expect(v).toEqual(v)\<close> returns
  without raising. The value is loosely equal to itself, so the deep path is not entered,
  whatever the objects behind \<open>v\<close> look like.
\<close>

theorem toEqual_reflexive_except_NaN:
  "v \<noteq> VNum NaN \<Longrightarrow> toEqual rt depth h (Expect v) v = Some (Inr ())"
  by (cases v) (simp_all add: toEqual_def Expect_def looseEq_def strictEq_def)

theorem toEqual_reflexive_except_NaN_witness:
  "VRef 1 \<noteq> VNum NaN
   \<and> toEqual exampleEngine 2 objectsHeap (Expect (VRef 1)) (VRef 1) = Some (Inr ())"
  using toEqual_reflexive_except_NaN [of "VRef 1" exampleEngine 2 objectsHeap] by simp

subsection \<open>C5: toThrowError\<close>

text \<open>
  C5: with the default polarity, \<open>toThrowError(T, m)\<close> on a function returns without
  raising if and only if calling the function throws an error that is an instance of
  \<open>T\<close> and whose message is the string \<open>m\<close>.
\<close>

theorem toThrowError_passes_iff:
  "kind (h f) = FunctionObject outcome \<Longrightarrow>
     (toThrowError rt h (Expect (VRef f)) errorType (VStr errorMessage) = Inr ()) \<longleftrightarrow>
     (\<exists>error. outcome = Throws error
        \<and> instanceOf h error errorType = Inr True
        \<and> getProp rt h error (Name ''message'') = Inr (VStr errorMessage))"
  by (cases outcome)
     (auto simp: toThrowError_def Expect_def invoke_def bindE_def strictEq_def
           split: sum.splits)

theorem toThrowError_passes_iff_witness:
  "kind (errorsHeap 5) = FunctionObject (Throws (VRef 4))
   \<and> instanceOf errorsHeap (VRef 4) (VRef 1) = Inr True
   \<and> getProp exampleEngine errorsHeap (VRef 4) (Name ''message'') = Inr (VStr ''bad'')
   \<and> toThrowError exampleEngine errorsHeap (Expect (VRef 5)) (VRef 1) (VStr ''bad'') = Inr ()
   \<and> kind (errorsHeap 7) = FunctionObject (Throws (VRef 6))
   \<and> instanceOf errorsHeap (VRef 6) (VRef 1) = Inr False
   \<and> toThrowError exampleEngine errorsHeap (Expect (VRef 7)) (VRef 1) (VStr ''bad'') \<noteq> Inr ()"
proof -
  have k5: "kind (errorsHeap 5) = FunctionObject (Throws (VRef 4))"
    by (simp add: heap_defs)
  have k7: "kind (errorsHeap 7) = FunctionObject (Throws (VRef 6))"
    by (simp add: heap_defs)
  have i4: "instanceOf errorsHeap (VRef 4) (VRef 1) = Inr True"
    by (simp add: instanceOf_def heap_defs)
  have i6: "instanceOf errorsHeap (VRef 6) (VRef 1) = Inr False"
    by (simp add: instanceOf_def heap_defs)
  have m4: "getProp exampleEngine errorsHeap (VRef 4) (Name ''message'') = Inr (VStr ''bad'')"
    by (simp add: getProp_def lookupProp_def heap_defs)
  show ?thesis
    using toThrowError_passes_iff
            [of errorsHeap 5 "Throws (VRef 4)" exampleEngine "VRef 1" "''bad''"]
          toThrowError_passes_iff
            [of errorsHeap 7 "Throws (VRef 6)" exampleEngine "VRef 1" "''bad''"]
          k5 k7 i4 i6 m4
    by simp
qed

subsection \<open>C6: usage errors\<close>

text \<open>
  C6: \<open>toMatch\<close> on a value that is not a string and \<open>toThrow\<close> on a value that is not
  callable are reported as type errors at once. \<open>toMatch\<close> does so; \<open>toThrow\<close> does not:
  the call of the non-callable stands inside \<open>try\<close>, so the engine's \<open>TypeError\<close> is
  caught and counted as the error thrown. \<open>Expect(5).toThrow()\<close> returns, and
  \<open>Expect(5).not.toThrow()\<close> raises a match error.
\<close>

theorem toThrow_absorbs_usage_error:
  "\<not> isCallable errorsHeap (VNum (Fin 5))
   \<and> toThrow exampleEngine errorsHeap (Expect (VNum (Fin 5))) = Inr ()
   \<and> toThrow exampleEngine errorsHeap (not (Expect (VNum (Fin 5))))
       = Inl (ErrorMatchError (VRef 9) False None)"
  by (simp add: toThrow_def isCallable_def invoke_def Expect_def not_def bindE_def strictEq_def
        exampleEngine_def)

subsection \<open>C7: toMatch\<close>

text \<open>
  C7: \<open>toMatch\<close> raises a \<open>TypeError\<close> whenever the regular expression is \<open>null\<close> or
  \<open>undefined\<close> or the actual value is not a string; otherwise, for a regular expression
  and a string, it raises the \<open>RegexMatchError\<close> exactly when the result of the test
  differs from the polarity.
\<close>

theorem toMatch_errors:
  "(regex = VNull \<or> regex = VUndefined \<or> typeof h (actualValue m) \<noteq> TString
      \<longrightarrow> (\<exists>msg. toMatch h m regex = Inl (TypeError msg)))
   \<and> (kind (h r) = RegExpObject test \<and> actualValue m = VStr s
      \<longrightarrow> toMatch h m (VRef r) =
            (if test s \<noteq> shouldMatch m
             then Inl (RegexMatchError (VStr s) (VRef r) (shouldMatch m))
             else Inr ()))"
  by (auto simp: toMatch_def strictEq_def typeof_def regexTest_def bindE_def
           split: val.splits)

theorem toMatch_errors_witness:
  "typeof miscHeap (actualValue (Expect (VNum (Fin 5)))) \<noteq> TString
   \<and> (\<exists>msg. toMatch miscHeap (Expect (VNum (Fin 5))) (VRef 1) = Inl (TypeError msg))
   \<and> (\<exists>msg. toMatch miscHeap (Expect (VStr ''abc'')) VNull = Inl (TypeError msg))
   \<and> kind (miscHeap 1) = RegExpObject (\<lambda>s. take 1 s = ''a'')
   \<and> toMatch miscHeap (Expect (VStr ''abc'')) (VRef 1) = Inr ()
   \<and> toMatch miscHeap (Expect (VStr ''xbc'')) (VRef 1)
       = Inl (RegexMatchError (VStr ''xbc'') (VRef 1) True)
   \<and> toMatch miscHeap (not (Expect (VStr ''abc''))) (VRef 1)
       = Inl (RegexMatchError (VStr ''abc'') (VRef 1) False)"
proof -
  have k: "kind (miscHeap 1) = RegExpObject (\<lambda>s. take 1 s = ''a'')"
    by (simp add: heap_defs)
  have t: "typeof miscHeap (actualValue (Expect (VNum (Fin 5)))) \<noteq> TString"
    by (simp add: typeof_def Expect_def)
  show ?thesis
    using toMatch_errors [of "VRef 1" miscHeap "Expect (VNum (Fin 5))" 1
                            "\<lambda>s. take 1 s = ''a''" "''abc''"]
          toMatch_errors [of VNull miscHeap "Expect (VStr ''abc'')" 1
                            "\<lambda>s. take 1 s = ''a''" "''abc''"]
          toMatch_errors [of VNull miscHeap "Expect (VStr ''xbc'')" 1
                            "\<lambda>s. take 1 s = ''a''" "''xbc''"]
          toMatch_errors [of VNull miscHeap "not (Expect (VStr ''abc''))" 1
                            "\<lambda>s. take 1 s = ''a''" "''abc''"]
          k t
    by (simp add: Expect_def not_def)
qed

subsection \<open>C8: no cycle guard\<close>

text \<open>
  C8: the deep path has no cycle guard. For two distinct objects whose property \<open>self\<close>
  refers to the object itself, no depth is enough for the deep path to return, and so
  none is for \<open>toEqual\<close>.
\<close>

theorem deep_path_diverges_on_cycle:
  "checkObjectsAreDeepEqual depth rt cyclicHeap (VRef 1) (VRef 2) = None
   \<and> toEqual rt depth cyclicHeap (Expect (VRef 2)) (VRef 1) = None"
proof -
  have deep: "checkObjectsAreDeepEqual d rt cyclicHeap (VRef 1) (VRef 2) = None" for d
    by (induction d) (simp_all add: heap_defs builtin_defs)
  then show ?thesis
    by (simp add: toEqual_def Expect_def looseEq_def strictEq_def typeof_def heap_defs)
qed

subsection \<open>C9: the accessor not\<close>

text \<open>
  C9: \<open>not\<close> returns the same Matcher object, its polarity toggled and its actual value
  unchanged; applied twice it leaves the store of Matchers as it was, and every operation
  on \<open>Expect(x).not.not\<close> has the outcome it has on \<open>Expect(x)\<close>.
\<close>

theorem not_toggles_same_matcher:
  "fst (not_get this st) = this
   \<and> actualValue (snd (not_get this st) this) = actualValue (st this)
   \<and> shouldMatch (snd (not_get this st) this) = (\<not> shouldMatch (st this))
   \<and> not_get this (snd (not_get this st)) = (this, st)
   \<and> not (not m) = m
   \<and> perform rt depth h (not (not (Expect x))) operation
       = perform rt depth h (Expect x) operation"
  by (simp add: not_get_def not_def)

subsection \<open>C10: the deep path on null\<close>

text \<open>
  C10, as stated, fails where the actual value is an array, because the test of
  array-ness comes before \<open>Object.keys\<close>: \<open>Expect([1]).toEqual(null)\<close> raises the
  \<open>EqualMatchError\<close>. It also fails under negation, where a loosely unequal pair never
  enters the deep path: \<open>Expect(1).not.toEqual(null)\<close> returns.
\<close>

theorem toEqual_null_counterexample:
  "\<not> looseEq exampleEngine VNull (VRef 2)
   \<and> toEqual exampleEngine 1 miscHeap (Expect (VRef 2)) VNull
       = Some (Inl (EqualMatchError (VRef 2) VNull True))
   \<and> \<not> looseEq exampleEngine VNull (VNum (Fin 1))
   \<and> toEqual exampleEngine 1 miscHeap (not (Expect (VNum (Fin 1)))) VNull = Some (Inr ())"
  by (simp add: toEqual_def Expect_def not_def looseEq_def nullish_def typeof_def isArray_def
        heap_defs)

text \<open>
  C10, amended: with the default polarity, when the expected value is \<open>null\<close> and the
  actual value is loosely unequal to it and not an array, \<open>toEqual\<close> raises the engine's
  \<open>TypeError\<close> of \<open>Object.keys(null)\<close>; and when the loop of the deep path comes to a
  key whose expected value is \<open>null\<close> while the actual one is not \<open>null\<close> and not an
  array, the deep path raises the same \<open>TypeError\<close>.
\<close>

theorem toEqual_null_reaches_keys_of_null:
  "(shouldMatch m \<and> \<not> looseEq rt VNull (actualValue m) \<and> \<not> isArray h (actualValue m)
      \<longrightarrow> toEqual rt (Suc depth) h m VNull = Some (Inl (EngineTypeError KeysOfNullish)))
   \<and> (getProp rt h objectA k = Inr VNull \<and> getProp rt h objectB k = Inr vb
        \<and> \<not> strictEq VNull vb \<and> \<not> isArray h vb
      \<longrightarrow> checkProperties (checkObjectsAreDeepEqual (Suc depth) rt h) rt h objectA objectB (k # rest)
            = Some (Inl (EngineTypeError KeysOfNullish)))"
  by (simp add: toEqual_def typeof_def isArray_def objectKeys_def)

theorem toEqual_null_reaches_keys_of_null_witness:
  "shouldMatch (Expect (VNum (Fin 1)))
   \<and> \<not> looseEq exampleEngine VNull (actualValue (Expect (VNum (Fin 1))))
   \<and> \<not> isArray miscHeap (actualValue (Expect (VNum (Fin 1))))
   \<and> toEqual exampleEngine 1 miscHeap (Expect (VNum (Fin 1))) VNull
       = Some (Inl (EngineTypeError KeysOfNullish))
   \<and> getProp exampleEngine miscHeap (VRef 3) (Name ''a'') = Inr VNull
   \<and> getProp exampleEngine miscHeap (VRef 4) (Name ''a'') = Inr (VNum (Fin 1))
   \<and> \<not> strictEq VNull (VNum (Fin 1)) \<and> \<not> isArray miscHeap (VNum (Fin 1))
   \<and> checkProperties (checkObjectsAreDeepEqual 1 exampleEngine miscHeap) exampleEngine miscHeap (VRef 3) (VRef 4)
        [Name ''a''] = Some (Inl (EngineTypeError KeysOfNullish))
   \<and> toEqual exampleEngine 2 miscHeap (Expect (VRef 4)) (VRef 3)
       = Some (Inl (EngineTypeError KeysOfNullish))"
proof -
  have g3: "getProp exampleEngine miscHeap (VRef 3) (Name ''a'') = Inr VNull"
    by (simp add: heap_defs getProp_def lookupProp_def)
  have g4: "getProp exampleEngine miscHeap (VRef 4) (Name ''a'') = Inr (VNum (Fin 1))"
    by (simp add: heap_defs getProp_def lookupProp_def)
  have pre: "shouldMatch (Expect (VNum (Fin 1)))
      \<and> \<not> looseEq exampleEngine VNull (actualValue (Expect (VNum (Fin 1))))
      \<and> \<not> isArray miscHeap (actualValue (Expect (VNum (Fin 1))))
      \<and> \<not> strictEq VNull (VNum (Fin 1)) \<and> \<not> isArray miscHeap (VNum (Fin 1))"
    by (simp add: Expect_def looseEq_def nullish_def isArray_def strictEq_def)
  have nested: "toEqual exampleEngine 2 miscHeap (Expect (VRef 4)) (VRef 3)
       = Some (Inl (EngineTypeError KeysOfNullish))"
    by (simp add: toEqual_def Expect_def numeral_2_eq_2 heap_defs builtin_defs)
  show ?thesis
    using toEqual_null_reaches_keys_of_null
            [of "Expect (VNum (Fin 1))" exampleEngine miscHeap 0 "VRef 3" "Name ''a''"
                "VRef 4" "VNum (Fin 1)" "[]"]
          g3 g4 pre nested
    by simp
qed

end
